theory Spec2Isabelle
  imports Main "HOL-Library.Sublist" "HOL-Library.Word"
begin

section \<open>Data model of loader\_aq.py\<close>

text \<open>
  A Python \<open>str\<close> is a sequence of Unicode code points, and slicing and \<open>len\<close> count
  code points. The model therefore takes a text to be a list of code points; \<open>ascii\<close>
  embeds the ASCII literals of the script. Bytes (file contents) are 8-bit words.
\<close>

type_synonym pystr = "nat list"

type_synonym byte = "8 word"

definition ascii :: "string \<Rightarrow> pystr" where
  "ascii s = map of_char s"

text \<open>Python's \<open>sep.join(parts)\<close>.\<close>

fun join :: "pystr \<Rightarrow> pystr list \<Rightarrow> pystr" where
  "join sep [] = []"
| "join sep [x] = x"
| "join sep (x # y # ys) = x @ sep @ join sep (y # ys)"

text \<open>Python's \<open>str(n)\<close> for a non-negative integer, as used by \<open>f"Row {i+1}"\<close>.\<close>

definition digit :: "nat \<Rightarrow> nat" where
  "digit d = 48 + d"

fun str_nat :: "nat \<Rightarrow> pystr" where
  "str_nat n = (if n < 10 then [digit n] else str_nat (n div 10) @ [digit (n mod 10)])"

declare str_nat.simps [simp del]

text \<open>
  A \<open>Document\<close> of LangChain: the text of one segment and its metadata dictionary
  (for a CSV row: the source path and the row number).
\<close>

datatype meta_value = MStr pystr | MInt int

record document =
  page_content :: pystr
  metadata :: "(pystr \<times> meta_value) list"

datatype document_type = TextDocument | WebBaseDocument | CSVDocument | PDFDocument

text \<open>
  Exceptions the script can end with: \<open>docs[0]\<close> on an empty list, no usable temporary
  file name, a loader that fails, a chat model call that fails.
\<close>

datatype error = IndexError | FileExistsError | ExtractionError pystr | GenerationError pystr

section \<open>The prompt template\<close>

text \<open>
  \<open>PromptTemplate(template=..., input_variables=['question', 'text'])\<close>: the template
  text in its parsed form, literal pieces and the two replacement fields in the order of
  the source. The \<open>\n\<close> escapes and the line breaks of the triple-quoted literal are the
  code point 10; each continuation line starts with 16 spaces.
\<close>

datatype input_variable = Question | Text

datatype part = Lit pystr | Field input_variable

definition template :: "part list" where
  "template =
    [Lit (ascii ''Answer the user question: ''), Field Question,
     Lit (ascii ''.'' @ [10, 10] @ ascii ''                Only find the answer in the uploaded text:'' @ [10]),
     Field Text,
     Lit (ascii ''.'' @ [10] @ ascii ''                Format the answer in a structured way.'' @ [10]
          @ ascii ''                If the content contains a table, display it properly.'')]"

fun format_part :: "pystr \<Rightarrow> pystr \<Rightarrow> part \<Rightarrow> pystr" where
  "format_part q t (Lit s) = s"
| "format_part q t (Field Question) = q"
| "format_part q t (Field Text) = t"

text \<open>\<open>template.format(question=q, text=t)\<close>: the prompt sent to the chat model.\<close>

definition format_prompt :: "part list \<Rightarrow> pystr \<Rightarrow> pystr \<Rightarrow> pystr" where
  "format_prompt tmpl q t = concat (map (format_part q t) tmpl)"

section \<open>Effects of one run of the script\<close>

text \<open>
  Streamlit runs the whole script once per interaction. A run reads the widget values,
  writes elements to the page, may write a temporary file, and may call the chain
  \<open>template | llm_model | parser\<close>. The trace records, in order, every element shown
  and every invocation of the prompt template and of the chat model.
\<close>

datatype write_arg = WText pystr | WDict "(pystr \<times> meta_value) list"

datatype element =
    Title pystr | Markdown pystr | Header pystr | Info pystr | Subheader pystr
  | Write "write_arg list"

datatype event =
    PageConfig pystr pystr
  | Show element
  | ShowSidebar element
  | TemplateInvoke pystr pystr
  | ModelInvoke pystr pystr pystr

record world =
  environ :: "pystr \<rightharpoonup> pystr"
  fs :: "pystr \<rightharpoonup> byte list"
  names :: "nat \<Rightarrow> pystr"
  trace :: "event list"

text \<open>
  What the script does not contain: the \<open>.env\<close> file read by \<open>load_dotenv\<close>, the
  absolute directory of temporary files, the platform's bound \<open>tempfile.TMP_MAX\<close> on the
  names tried for a temporary file (\<open>os.TMP_MAX\<close> where the platform has it, 238328 on
  Linux, and 10000 otherwise), the four document loaders and the remote chat model. A loader
  or the chat model either fails with a message or returns its result.
\<close>

record externals =
  dotenv_file :: "(pystr \<times> pystr) list"
  tempdir :: pystr
  TMP_MAX :: nat
  TextLoader :: "(pystr \<rightharpoonup> byte list) \<Rightarrow> pystr \<Rightarrow> pystr + document list"
  WebBaseLoader :: "pystr \<Rightarrow> pystr + document list"
  CSVLoader :: "(pystr \<rightharpoonup> byte list) \<Rightarrow> pystr \<Rightarrow> pystr + document list"
  PyPDFLoader :: "(pystr \<rightharpoonup> byte list) \<Rightarrow> pystr \<Rightarrow> pystr + document list"
  chat_model :: "(pystr \<rightharpoonup> pystr) \<Rightarrow> pystr \<Rightarrow> pystr \<Rightarrow> pystr \<Rightarrow> pystr + pystr"

text \<open>
  An uploaded file is a file-like object: its bytes and a read cursor. The widget values
  of the run: the selectbox, the question field, the uploaders (\<open>None\<close> while nothing is
  uploaded), the URL field and the four buttons (\<open>True\<close> in the run that follows a click).
\<close>

record upload =
  content :: "byte list"
  pos :: nat

record inputs =
  document_type :: document_type
  user_question :: pystr
  text_file :: "upload option"
  url :: pystr
  csv_file :: "upload option"
  pdf_file :: "upload option"
  show_text_button :: bool
  show_page_button :: bool
  show_csv_button :: bool
  show_pdf_button :: bool

text \<open>A statement of the script: it ends with an exception or a value, in a new world.\<close>

type_synonym 'a prog = "world \<Rightarrow> (error + 'a) \<times> world"

definition return :: "'a \<Rightarrow> 'a prog" where
  "return a = (\<lambda>w. (Inr a, w))"

definition raise :: "error \<Rightarrow> 'a prog" where
  "raise e = (\<lambda>w. (Inl e, w))"

definition then_do :: "'a prog \<Rightarrow> ('a \<Rightarrow> 'b prog) \<Rightarrow> 'b prog" where
  "then_do m f = (\<lambda>w. case m w of (Inl e, w') \<Rightarrow> (Inl e, w') | (Inr a, w') \<Rightarrow> f a w')"

definition emit :: "event \<Rightarrow> unit prog" where
  "emit ev = (\<lambda>w. (Inr (), w\<lparr>trace := trace w @ [ev]\<rparr>))"

definition st_info :: "pystr \<Rightarrow> unit prog" where
  "st_info s = emit (Show (Info s))"

definition st_subheader :: "pystr \<Rightarrow> unit prog" where
  "st_subheader s = emit (Show (Subheader s))"

definition st_write :: "write_arg list \<Rightarrow> unit prog" where
  "st_write args = emit (Show (Write args))"

text \<open>\<open>xs[0]\<close>: Python raises IndexError on an empty list.\<close>

definition index0 :: "'a list \<Rightarrow> 'a prog" where
  "index0 xs = (case xs of [] \<Rightarrow> raise IndexError | x # _ \<Rightarrow> return x)"

text \<open>\<open>loader.load()\<close>: a failing loader ends the run.\<close>

definition load :: "(world \<Rightarrow> pystr + document list) \<Rightarrow> document list prog" where
  "load loader = (\<lambda>w. case loader w of
      Inl msg \<Rightarrow> (Inl (ExtractionError msg), w)
    | Inr docs \<Rightarrow> (Inr docs, w))"

section \<open>Start of the script: environment, chat model, chain\<close>

text \<open>
  \<open>load_dotenv()\<close> adds the entries of the \<open>.env\<close> file to the environment; a variable
  that is already set keeps its value, and the last of several entries for a name counts.
\<close>

definition load_dotenv :: "externals \<Rightarrow> unit prog" where
  "load_dotenv ext = (\<lambda>w. (Inr (), w\<lparr>environ := map_of (rev (dotenv_file ext)) ++ environ w\<rparr>))"

text \<open>\<open>init_chat_model(model="gemini-2.0-flash", model_provider="google-genai")\<close>.\<close>

definition llm_model :: "pystr \<times> pystr" where
  "llm_model = (ascii ''gemini-2.0-flash'', ascii ''google-genai'')"

text \<open>
  \<open>qa_chain.invoke({"question": q, "text": t})\<close>: the template formats the prompt, the
  chat model answers it (with the credentials of the environment), the parser returns the
  answer's text.
\<close>

definition qa_chain_invoke :: "externals \<Rightarrow> pystr \<Rightarrow> pystr \<Rightarrow> pystr prog" where
  "qa_chain_invoke ext q t =
     then_do (emit (TemplateInvoke q t)) (\<lambda>_.
     then_do (emit (ModelInvoke (fst llm_model) (snd llm_model) (format_prompt template q t))) (\<lambda>_.
     (\<lambda>w. case chat_model ext (environ w) (fst llm_model) (snd llm_model)
                 (format_prompt template q t) of
            Inl msg \<Rightarrow> (Inl (GenerationError msg), w)
          | Inr answer \<Rightarrow> (Inr answer, w))))"

section \<open>save\_uploaded\_file\<close>

text \<open>
  \<open>tempfile.NamedTemporaryFile(delete=False, suffix=suffix)\<close> opens a new file named
  \<open>os.path.join(dir, "tmp" + name + suffix)\<close>. The names come from an endless sequence
  of random strings, the \<open>names\<close> of the world; at most \<open>TMP_MAX\<close> of them are tried in
  turn, a name whose file exists is skipped, and FileExistsError is raised when none of
  them is usable. The new file is empty. Closing the file removes it when \<open>delete\<close> is set.
\<close>

text \<open>
  \<open>posixpath.join(a, b)\<close>: a second part that starts with the separator replaces the
  first; no separator is added to an empty first part or to one that ends with it.
\<close>

definition path_join :: "pystr \<Rightarrow> pystr \<Rightarrow> pystr" where
  "path_join a b =
     (if (case b of [] \<Rightarrow> False | c # _ \<Rightarrow> c = 47) then b
      else if a = [] \<or> last a = 47 then a @ b
      else a @ [47] @ b)"

definition tmp_path :: "pystr \<Rightarrow> pystr \<Rightarrow> pystr \<Rightarrow> pystr" where
  "tmp_path dir name suf = path_join dir (ascii ''tmp'' @ name @ suf)"

text \<open>
  The loop \<open>for seq in range(TMP_MAX)\<close> of \<open>_mkstemp_inner\<close>, with the number of names left
  to try: the path found, if any, and the names not yet drawn.
\<close>

fun mkstemp_inner ::
  "nat \<Rightarrow> pystr \<Rightarrow> pystr \<Rightarrow> (pystr \<rightharpoonup> byte list) \<Rightarrow> (nat \<Rightarrow> pystr)
     \<Rightarrow> pystr option \<times> (nat \<Rightarrow> pystr)"
where
  "mkstemp_inner 0 dir suf files ns = (None, ns)"
| "mkstemp_inner (Suc k) dir suf files ns =
     (case files (tmp_path dir (ns 0) suf) of
        Some _ \<Rightarrow> mkstemp_inner k dir suf files (\<lambda>i. ns (Suc i))
      | None \<Rightarrow> (Some (tmp_path dir (ns 0) suf), (\<lambda>i. ns (Suc i))))"

definition NamedTemporaryFile :: "externals \<Rightarrow> pystr \<Rightarrow> pystr prog" where
  "NamedTemporaryFile ext suf = (\<lambda>w.
     case mkstemp_inner (TMP_MAX ext) (tempdir ext) suf (fs w) (names w) of
       (None, ns) \<Rightarrow> (Inl FileExistsError, w\<lparr>names := ns\<rparr>)
     | (Some name, ns) \<Rightarrow> (Inr name, w\<lparr>fs := (fs w)(name \<mapsto> []), names := ns\<rparr>))"

definition tmp_write :: "pystr \<Rightarrow> byte list \<Rightarrow> unit prog" where
  "tmp_write name bs = (\<lambda>w.
     (Inr (), w\<lparr>fs := (fs w)(name \<mapsto> (case fs w name of None \<Rightarrow> [] | Some old \<Rightarrow> old) @ bs)\<rparr>))"

definition tmp_close :: "bool \<Rightarrow> pystr \<Rightarrow> unit prog" where
  "tmp_close delete name = (\<lambda>w. (Inr (), if delete then w\<lparr>fs := (fs w)(name := None)\<rparr> else w))"

text \<open>\<open>uploaded_file.read()\<close>: the bytes from the cursor to the end.\<close>

definition read :: "upload \<Rightarrow> byte list" where
  "read f = drop (pos f) (content f)"

text \<open>
  The \<open>with\<close> block writes what \<open>read\<close> returns, the \<open>return\<close> inside it leaves the block,
  which closes the file (\<open>delete=False\<close>), and the name is the result.
\<close>

definition save_uploaded_file :: "externals \<Rightarrow> upload \<Rightarrow> pystr \<Rightarrow> pystr prog" where
  "save_uploaded_file ext uploaded_file suf =
     then_do (NamedTemporaryFile ext suf) (\<lambda>name.
     then_do (tmp_write name (read uploaded_file)) (\<lambda>_.
     then_do (tmp_close False name) (\<lambda>_.
     return name)))"

section \<open>The four branches\<close>

text \<open>The answer is shown under the heading with the check mark (U+2705).\<close>

definition show_answer :: "pystr \<Rightarrow> unit prog" where
  "show_answer result =
     then_do (st_subheader ([9989] @ ascii '' Answer'')) (\<lambda>_.
     st_write [WText result])"

definition text_document :: "externals \<Rightarrow> inputs \<Rightarrow> unit prog" where
  "text_document ext inp =
     then_do (st_info ([128196] @ ascii '' Upload a plain text file (.txt). Each line or full text will be read.'')) (\<lambda>_.
     case text_file inp of
       None \<Rightarrow> return ()
     | Some file \<Rightarrow>
         then_do (save_uploaded_file ext file (ascii ''.txt'')) (\<lambda>temp_path.
         then_do (load (\<lambda>w. TextLoader ext (fs w) temp_path)) (\<lambda>docs.
         then_do
           (if user_question inp \<noteq> [] \<and> docs \<noteq> [] then
              then_do (index0 docs) (\<lambda>d.
              then_do (qa_chain_invoke ext (user_question inp) (take 2000 (page_content d)))
                show_answer)
            else return ()) (\<lambda>_.
         if show_text_button inp then
           then_do (st_subheader ([128196] @ ascii '' File Content'')) (\<lambda>_.
           then_do (index0 docs) (\<lambda>d.
           st_write [WText (page_content d)]))
         else return ()))))"

definition webbase_document :: "externals \<Rightarrow> inputs \<Rightarrow> unit prog" where
  "webbase_document ext inp =
     then_do (st_info ([127760] @ ascii '' Enter a public webpage URL (HTML only). Not for PDFs or login-protected pages.'')) (\<lambda>_.
     if url inp \<noteq> [] then
       then_do (load (\<lambda>w. WebBaseLoader ext (url inp))) (\<lambda>docs.
       then_do
         (if user_question inp \<noteq> [] then
            then_do (index0 docs) (\<lambda>d.
            then_do (qa_chain_invoke ext (user_question inp) (take 2000 (page_content d)))
              show_answer)
          else return ()) (\<lambda>_.
       if show_page_button inp then
         then_do (st_subheader ([127760] @ ascii '' Webpage Content'')) (\<lambda>_.
         then_do (index0 docs) (\<lambda>d.
         st_write [WText (page_content d)]))
       else return ()))
     else return ())"

text \<open>\<open>for i, doc in enumerate(docs)\<close>, with \<open>i\<close> the index of the first row left.\<close>

fun show_rows :: "nat \<Rightarrow> document list \<Rightarrow> unit prog" where
  "show_rows i [] = return ()"
| "show_rows i (doc # docs) =
     then_do (st_subheader (ascii ''Row '' @ str_nat (i + 1))) (\<lambda>_.
     then_do (st_write [WText (page_content doc)]) (\<lambda>_.
     then_do (st_write [WText (ascii ''Metadata:''), WDict (metadata doc)]) (\<lambda>_.
     show_rows (i + 1) docs)))"

definition csv_document :: "externals \<Rightarrow> inputs \<Rightarrow> unit prog" where
  "csv_document ext inp =
     then_do (st_info ([128202] @ ascii '' Upload a CSV file. Each row will be read as a document.'')) (\<lambda>_.
     case csv_file inp of
       None \<Rightarrow> return ()
     | Some file \<Rightarrow>
         then_do (save_uploaded_file ext file (ascii ''.csv'')) (\<lambda>temp_path.
         then_do (load (\<lambda>w. CSVLoader ext (fs w) temp_path)) (\<lambda>docs.
         then_do (if show_csv_button inp then show_rows 0 docs else return ()) (\<lambda>_.
         if user_question inp \<noteq> [] then
           then_do (qa_chain_invoke ext (user_question inp)
                      (join [10] (map page_content (take 20 docs))))
             show_answer
         else return ()))))"

definition pdf_document :: "externals \<Rightarrow> inputs \<Rightarrow> unit prog" where
  "pdf_document ext inp =
     then_do (st_info ([128213] @ ascii '' Upload a PDF file. Each page will be read as a separate document.'')) (\<lambda>_.
     case pdf_file inp of
       None \<Rightarrow> return ()
     | Some file \<Rightarrow>
         then_do (save_uploaded_file ext file (ascii ''.pdf'')) (\<lambda>temp_path.
         then_do (load (\<lambda>w. PyPDFLoader ext (fs w) temp_path)) (\<lambda>docs.
         then_do
           (if user_question inp \<noteq> [] \<and> docs \<noteq> [] then
              then_do (index0 docs) (\<lambda>d.
              then_do (qa_chain_invoke ext (user_question inp) (take 2000 (page_content d)))
                show_answer)
            else return ()) (\<lambda>_.
         if show_pdf_button inp then
           then_do (st_subheader ([128213] @ ascii '' PDF Content'')) (\<lambda>_.
           then_do (index0 docs) (\<lambda>d.
           st_write [WText (page_content d)]))
         else return ()))))"

section \<open>The script\<close>

text \<open>Lines 13 to 30: environment, page title and introduction, sidebar.\<close>

definition page_head :: "externals \<Rightarrow> unit prog" where
  "page_head ext =
     then_do (load_dotenv ext) (\<lambda>_.
     then_do (emit (PageConfig (ascii ''Document QA Chatbot'') (ascii ''wide''))) (\<lambda>_.
     then_do (emit (Show (Title ([128196] @ ascii '' Loader Document QA Chatbot'')))) (\<lambda>_.
     then_do (emit (Show (Markdown (ascii ''Upload a document or provide a URL, ask your questions, and get structured answers using Google Gemini LLM!'')))) (\<lambda>_.
     then_do (emit (ShowSidebar (Header (ascii ''Select Document Type'')))) (\<lambda>_.
     emit (ShowSidebar (Markdown (ascii ''---''))))))))"

definition branch :: "externals \<Rightarrow> inputs \<Rightarrow> unit prog" where
  "branch ext inp =
     (case document_type inp of
        TextDocument \<Rightarrow> text_document ext inp
      | WebBaseDocument \<Rightarrow> webbase_document ext inp
      | CSVDocument \<Rightarrow> csv_document ext inp
      | PDFDocument \<Rightarrow> pdf_document ext inp)"

definition app :: "externals \<Rightarrow> inputs \<Rightarrow> unit prog" where
  "app ext inp = then_do (page_head ext) (\<lambda>_. branch ext inp)"

text \<open>What a run shows about the chain: the excerpts given to the template, the calls of the model.\<close>

fun excerpts :: "event list \<Rightarrow> (pystr \<times> pystr) list" where
  "excerpts [] = []"
| "excerpts (TemplateInvoke q t # evs) = (q, t) # excerpts evs"
| "excerpts (_ # evs) = excerpts evs"

fun model_calls :: "event list \<Rightarrow> (pystr \<times> pystr \<times> pystr) list" where
  "model_calls [] = []"
| "model_calls (ModelInvoke m p prompt # evs) = (m, p, prompt) # model_calls evs"
| "model_calls (_ # evs) = model_calls evs"

fun shown :: "event list \<Rightarrow> element list" where
  "shown [] = []"
| "shown (Show e # evs) = e # shown evs"
| "shown (_ # evs) = shown evs"

section \<open>What a run shows, in closed form\<close>

text \<open>The events of lines 13 to 30, which every run starts with.\<close>

definition head_events :: "event list" where
  "head_events =
     [PageConfig (ascii ''Document QA Chatbot'') (ascii ''wide''),
      Show (Title ([128196] @ ascii '' Loader Document QA Chatbot'')),
      Show (Markdown (ascii ''Upload a document or provide a URL, ask your questions, and get structured answers using Google Gemini LLM!'')),
      ShowSidebar (Header (ascii ''Select Document Type'')),
      ShowSidebar (Markdown (ascii ''---''))]"

text \<open>The three elements that the loop of "Show CSV Content" writes for the row with index \<open>i\<close>.\<close>

definition row_block :: "nat \<Rightarrow> document \<Rightarrow> event list" where
  "row_block i doc =
     [Show (Subheader (ascii ''Row '' @ str_nat (i + 1))),
      Show (Write [WText (page_content doc)]),
      Show (Write [WText (ascii ''Metadata:''), WDict (metadata doc)])]"

text \<open>
  A statement keeps to the chat model of the script when every model call it adds to the
  trace names the model and the provider of \<open>llm_model\<close>.
\<close>

definition calls_ok :: "'a prog \<Rightarrow> bool" where
  "calls_ok m \<longleftrightarrow> (\<forall>w. \<exists>calls.
      model_calls (trace (snd (m w))) = model_calls (trace w) @ calls
      \<and> list_all (\<lambda>(m, p, prompt). m = ascii ''gemini-2.0-flash'' \<and> p = ascii ''google-genai'') calls)"

section \<open>A concrete run\<close>

text \<open>
  Sample collaborators and inputs for the concrete runs below: loaders that return a given
  result, a chat model that answers every prompt, an environment that sets \<open>MODEL_NAME\<close>
  and a \<open>.env\<close> file that sets \<open>MODEL_PROVIDER\<close>, an empty directory of temporary
  files with random names that start with "k3x9q\_p2", a four-byte upload, and widget values for a chosen document type, question and
  button state.
\<close>

definition demo_externals :: "(pystr + document list) \<Rightarrow> externals" where
  "demo_externals r =
     \<lparr>dotenv_file = [(ascii ''MODEL_PROVIDER'', ascii ''openai'')],
      tempdir = ascii ''/tmp'',
      TMP_MAX = 238328,
      TextLoader = (\<lambda>files path. r),
      WebBaseLoader = (\<lambda>address. r),
      CSVLoader = (\<lambda>files path. r),
      PyPDFLoader = (\<lambda>files path. r),
      chat_model = (\<lambda>env m p prompt. Inr (ascii ''In 2024.''))\<rparr>"

definition demo_world :: world where
  "demo_world =
     \<lparr>environ = [ascii ''MODEL_NAME'' \<mapsto> ascii ''gpt-4o''],
      fs = Map.empty,
      names = (\<lambda>i. ascii ''k3x9q_p2'' @ replicate i 95),
      trace = []\<rparr>"

definition demo_upload :: upload where
  "demo_upload = \<lparr>content = [80, 114, 111, 106], pos = 0\<rparr>"

definition demo_inputs :: "document_type \<Rightarrow> pystr \<Rightarrow> bool \<Rightarrow> inputs" where
  "demo_inputs ty q clicked =
     \<lparr>document_type = ty, user_question = q,
      text_file = Some demo_upload, url = ascii ''https://example.com'',
      csv_file = Some demo_upload, pdf_file = Some demo_upload,
      show_text_button = clicked, show_page_button = clicked,
      show_csv_button = clicked, show_pdf_button = clicked\<rparr>"

definition demo_page :: "string \<Rightarrow> document" where
  "demo_page s = \<lparr>page_content = ascii s, metadata = []\<rparr>"

section \<open>Running the statements\<close>

lemma excerpts_append: "excerpts (xs @ ys) = excerpts xs @ excerpts ys"
  by (induction xs rule: excerpts.induct) simp_all

lemma model_calls_append: "model_calls (xs @ ys) = model_calls xs @ model_calls ys"
  by (induction xs rule: model_calls.induct) simp_all

lemma shown_append: "shown (xs @ ys) = shown xs @ shown ys"
  by (induction xs rule: shown.induct) simp_all

lemmas run_defs = then_do_def return_def raise_def emit_def st_info_def st_subheader_def
  st_write_def index0_def load_def

lemma mkstemp_inner_pos:
  "0 < k \<Longrightarrow> mkstemp_inner k dir suf files ns =
     (case files (tmp_path dir (ns 0) suf) of
        Some _ \<Rightarrow> mkstemp_inner (k - 1) dir suf files (\<lambda>i. ns (Suc i))
      | None \<Rightarrow> (Some (tmp_path dir (ns 0) suf), (\<lambda>i. ns (Suc i))))"
  by (cases k) (simp_all split: option.splits)

lemma save_uploaded_file_run:
  "save_uploaded_file ext f suf w =
     (case mkstemp_inner (TMP_MAX ext) (tempdir ext) suf (fs w) (names w) of
        (None, ns) \<Rightarrow> (Inl FileExistsError, w\<lparr>names := ns\<rparr>)
      | (Some name, ns) \<Rightarrow> (Inr name, w\<lparr>fs := (fs w)(name \<mapsto> read f), names := ns\<rparr>))"
  by (simp add: save_uploaded_file_def NamedTemporaryFile_def tmp_write_def tmp_close_def
      run_defs split: option.splits prod.splits)

lemma page_head_run:
  "page_head ext w =
     (Inr (), w\<lparr>environ := map_of (rev (dotenv_file ext)) ++ environ w,
               trace := trace w @ head_events\<rparr>)"
  by (simp add: page_head_def load_dotenv_def run_defs head_events_def)

lemma save_after_head:
  assumes "save_uploaded_file ext f suf w = (Inr p, w')"
  shows "save_uploaded_file ext f suf (w\<lparr>environ := e, trace := t\<rparr>)
           = (Inr p, w'\<lparr>environ := e, trace := t\<rparr>)"
  using assms by (auto simp: save_uploaded_file_run split: option.splits prod.splits)

lemma qa_chain_invoke_run:
  "qa_chain_invoke ext q t w =
     (case chat_model ext (environ w) (fst llm_model) (snd llm_model) (format_prompt template q t) of
        Inl msg \<Rightarrow> Inl (GenerationError msg) | Inr a \<Rightarrow> Inr a,
      w\<lparr>trace := trace w @ [TemplateInvoke q t,
            ModelInvoke (fst llm_model) (snd llm_model) (format_prompt template q t)]\<rparr>)"
  by (simp add: qa_chain_invoke_def run_defs split: sum.splits)

lemma length_ascii: "length (ascii s) = length s"
  by (simp add: ascii_def)

lemma ascii_eq_Nil: "ascii s = [] \<longleftrightarrow> s = []"
  by (simp add: ascii_def)

lemma show_rows_run:
  "show_rows i docs w =
     (Inr (), w\<lparr>trace := trace w @ concat (map (\<lambda>(k, doc). row_block k doc) (enumerate i docs))\<rparr>)"
proof (induction docs arbitrary: i w)
  case Nil
  show ?case by (simp add: return_def)
next
  case (Cons doc docs)
  show ?case
    by (simp add: Cons.IH run_defs row_block_def)
qed

lemma excerpts_rows: "excerpts (concat (map (\<lambda>(k, doc). row_block k doc) (enumerate i docs))) = []"
  by (induction docs arbitrary: i) (simp_all add: row_block_def)

lemma model_calls_rows:
  "model_calls (concat (map (\<lambda>(k, doc). row_block k doc) (enumerate i docs))) = []"
  by (induction docs arbitrary: i) (simp_all add: row_block_def)

text \<open>The search for a temporary name fails exactly when every name tried exists.\<close>

lemma mkstemp_inner_None:
  "fst (mkstemp_inner k dir suf files ns) = None
     \<longleftrightarrow> (\<forall>i<k. files (tmp_path dir (ns i) suf) \<noteq> None)"
proof (induction k arbitrary: ns)
  case 0
  show ?case by simp
next
  case (Suc k)
  show ?case
  proof (cases "files (tmp_path dir (ns 0) suf)")
    case None
    then show ?thesis by auto
  next
    case (Some bs)
    have "(\<forall>i<Suc k. files (tmp_path dir (ns i) suf) \<noteq> None)
            \<longleftrightarrow> (\<forall>i<k. files (tmp_path dir (ns (Suc i)) suf) \<noteq> None)"
      using Some by (auto simp: less_Suc_eq_0_disj)
    then show ?thesis using Some Suc.IH [of "\<lambda>i. ns (Suc i)"] by simp
  qed
qed

lemma mkstemp_inner_Some:
  "fst (mkstemp_inner k dir suf files ns) = Some p
     \<Longrightarrow> files p = None \<and> (\<exists>n. p = tmp_path dir n suf)"
proof (induction k arbitrary: ns)
  case 0
  then show ?case by simp
next
  case (Suc k)
  then show ?case by (auto split: option.splits)
qed

lemma suffix_tmp_path: "suffix suf (tmp_path dir n suf)"
proof -
  have "suffix suf (xs @ ascii ''tmp'' @ n @ suf)" for xs
    unfolding suffix_def by (rule exI [of _ "xs @ ascii ''tmp'' @ n"]) simp
  from this [of "[]"] this [of dir] this [of "dir @ [47]"] show ?thesis
    by (simp add: tmp_path_def path_join_def)
qed

lemmas demo_defs = demo_externals_def demo_world_def demo_inputs_def demo_page_def
  demo_upload_def save_uploaded_file_run mkstemp_inner_pos read_def ascii_eq_Nil
  length_ascii

lemmas app_defs = app_def branch_def text_document_def webbase_document_def csv_document_def
  pdf_document_def page_head_run qa_chain_invoke_run show_answer_def show_rows_run run_defs

text \<open>The chat model of a composed statement: the parts decide.\<close>

lemma calls_ok_quiet:
  assumes "\<And>w. model_calls (trace (snd (m w))) = model_calls (trace w)"
  shows "calls_ok m"
  unfolding calls_ok_def using assms by simp

lemma calls_ok_then_do:
  assumes m: "calls_ok m" and f: "\<And>a. calls_ok (f a)"
  shows "calls_ok (then_do m f)"
  unfolding calls_ok_def
proof
  fix w
  let ?ok = "list_all (\<lambda>(m, p, prompt). m = ascii ''gemini-2.0-flash'' \<and> p = ascii ''google-genai'')"
  obtain r w1 where mw: "m w = (r, w1)" by (cases "m w")
  from m obtain c1 where c1: "model_calls (trace w1) = model_calls (trace w) @ c1" "?ok c1"
    unfolding calls_ok_def using mw by (metis snd_conv)
  show "\<exists>calls. model_calls (trace (snd (then_do m f w))) = model_calls (trace w) @ calls \<and> ?ok calls"
  proof (cases r)
    case (Inl e)
    then show ?thesis using mw c1 by (simp add: then_do_def)
  next
    case (Inr a)
    from f [of a] obtain c2 where
      c2: "model_calls (trace (snd (f a w1))) = model_calls (trace w1) @ c2" "?ok c2"
      unfolding calls_ok_def by blast
    have "model_calls (trace (snd (then_do m f w))) = model_calls (trace w) @ (c1 @ c2)"
      using Inr mw c1(1) c2(1) by (simp add: then_do_def)
    moreover have "?ok (c1 @ c2)" using c1(2) c2(2) by simp
    ultimately show ?thesis by blast
  qed
qed

lemma calls_ok_show: "calls_ok (emit (Show e))" "calls_ok (emit (ShowSidebar e))"
  "calls_ok (emit (PageConfig a b))"
  by (rule calls_ok_quiet, simp add: emit_def model_calls_append)+

lemma calls_ok_basic: "calls_ok (return a)" "calls_ok (raise e)" "calls_ok (index0 xs)"
  "calls_ok (load loader)" "calls_ok (save_uploaded_file ext f suf)" "calls_ok (load_dotenv ext)"
  "calls_ok (show_rows i docs)"
  by (rule calls_ok_quiet,
      simp add: run_defs save_uploaded_file_run load_dotenv_def show_rows_run model_calls_append
        model_calls_rows split: list.splits sum.splits option.splits prod.splits)+

lemma calls_ok_qa_chain_invoke: "calls_ok (qa_chain_invoke ext q t)"
  unfolding calls_ok_def
  by (simp add: qa_chain_invoke_run model_calls_append llm_model_def)

lemma calls_ok_show_answer: "calls_ok (show_answer r)"
  by (simp add: show_answer_def st_subheader_def st_write_def calls_ok_then_do calls_ok_show)

lemmas calls_ok_intros = calls_ok_then_do calls_ok_show calls_ok_basic calls_ok_qa_chain_invoke
  calls_ok_show_answer

lemma calls_ok_app: "calls_ok (app ext inp)"
  unfolding app_def branch_def page_head_def text_document_def webbase_document_def
    csv_document_def pdf_document_def st_info_def st_subheader_def st_write_def
  by (auto intro!: calls_ok_intros split: document_type.splits option.splits)

section \<open>Zero segments\<close>

text \<open>
  Claim C1. With zero extracted segments and a question present the chat model should not be
  invoked. The Text and PDF branches test \<open>user_question and docs\<close>; the CSV branch tests
  \<open>user_question\<close> only. For a CSV upload that yields no row and the question "When?"
  the run invokes the chat model once, with the prompt built from the empty excerpt.
\<close>

theorem csv_zero_rows_model_invoked:
  "model_calls (trace (snd (app (demo_externals (Inr [])) (demo_inputs CSVDocument (ascii ''When?'') False) demo_world)))
     = [(ascii ''gemini-2.0-flash'', ascii ''google-genai'', format_prompt template (ascii ''When?'') [])]"
  by (simp add: app_defs demo_defs llm_model_def model_calls_append head_events_def)

section \<open>The excerpt given to the prompt template\<close>

text \<open>
  Claim C2. For a source of several segments the excerpt should be built from its first 20
  segments, as the CSV branch builds it from \<open>docs[:20]\<close>. The PDF branch passes
  \<open>docs[0].page_content[:2000]\<close>: for a PDF of the two pages "page one" and "page two" and
  the question "When?" the excerpt is the text of the first page alone, and not the two
  pages put together, with or without a newline between them.
\<close>

theorem pdf_excerpt_is_first_page_only:
  "excerpts (trace (snd (app
       (demo_externals (Inr [demo_page ''page one'', demo_page ''page two'']))
       (demo_inputs PDFDocument (ascii ''When?'') False) demo_world)))
     = [(ascii ''When?'', ascii ''page one'')]
   \<and> ascii ''page one'' \<noteq> ascii ''page one'' @ ascii ''page two''
   \<and> ascii ''page one'' \<noteq> ascii ''page one'' @ [10] @ ascii ''page two''"
  by (simp add: app_defs demo_defs excerpts_append head_events_def ascii_def)

text \<open>
  Claim C3. For a text document whose content is longer than 2000 characters, a run with a
  question invokes the prompt template once, with the question and exactly the first 2000
  characters of the content: the excerpt has length 2000 and is a prefix of the content.
\<close>

theorem text_excerpt_first_2000:
  assumes "document_type inp = TextDocument" and "text_file inp = Some file"
    and "user_question inp \<noteq> []"
    and "save_uploaded_file ext file (ascii ''.txt'') w = (Inr temp_path, w')"
    and "TextLoader ext (fs w') temp_path = Inr (d # ds)"
    and "2000 < length (page_content d)"
  shows "excerpts (trace (snd (app ext inp w)))
           = excerpts (trace w) @ [(user_question inp, take 2000 (page_content d))]
       \<and> length (take 2000 (page_content d)) = 2000
       \<and> prefix (take 2000 (page_content d)) (page_content d)"
proof -
  have "excerpts (trace (snd (app ext inp w)))
           = excerpts (trace w) @ [(user_question inp, take 2000 (page_content d))]"
    using assms(1,2,3,5)
    by (simp add: app_defs save_after_head [OF assms(4)] excerpts_append head_events_def
        split: sum.splits)
  moreover have "length (take 2000 (page_content d)) = 2000"
    using assms(6) by simp
  moreover have "prefix (take 2000 (page_content d)) (page_content d)"
    by (rule take_is_prefix)
  ultimately show ?thesis by simp
qed

text \<open>
  Claim C3 at a text document of 2001 characters.
\<close>

theorem text_excerpt_first_2000_witness:
  "excerpts (trace (snd (app (demo_externals (Inr [\<lparr>page_content = replicate 2001 97, metadata = []\<rparr>]))
       (demo_inputs TextDocument (ascii ''When?'') False) demo_world)))
     = [(ascii ''When?'', replicate 2000 97)]"
  using text_excerpt_first_2000 [of "demo_inputs TextDocument (ascii ''When?'') False" demo_upload
      "demo_externals (Inr [\<lparr>page_content = replicate 2001 97, metadata = []\<rparr>])" demo_world
      "tmp_path (ascii ''/tmp'') (ascii ''k3x9q_p2'') (ascii ''.txt'')"
      "snd (save_uploaded_file (demo_externals (Inr [\<lparr>page_content = replicate 2001 97, metadata = []\<rparr>]))
             demo_upload (ascii ''.txt'') demo_world)"
      "\<lparr>page_content = replicate 2001 97, metadata = []\<rparr>" "[]"]
  by (simp add: demo_defs)

text \<open>
  Claim C4. For a CSV of more than 20 rows (the rows \<open>r1\<close> to \<open>r20\<close> and at least one
  later row), a run with a question invokes the prompt template once, and the excerpt is the
  content of \<open>r1\<close>, a newline, the content of \<open>r2\<close>, and so on in row order up to the
  content of \<open>r20\<close>, with no newline after it; no later row occurs in the excerpt.
\<close>

theorem csv_excerpt_first_20_rows:
  assumes "document_type inp = CSVDocument" and "csv_file inp = Some file"
    and "user_question inp \<noteq> []"
    and "save_uploaded_file ext file (ascii ''.csv'') w = (Inr temp_path, w')"
    and "CSVLoader ext (fs w') temp_path = Inr
           ([r1, r2, r3, r4, r5, r6, r7, r8, r9, r10, r11, r12, r13, r14, r15, r16, r17,
               r18, r19, r20] @ later)"
    and "later \<noteq> []"
  shows "excerpts (trace (snd (app ext inp w)))
           = excerpts (trace w) @
             [(user_question inp,
               page_content r1 @ [10] @ page_content r2 @ [10] @ page_content r3 @ [10] @
               page_content r4 @ [10] @ page_content r5 @ [10] @ page_content r6 @ [10] @
               page_content r7 @ [10] @ page_content r8 @ [10] @ page_content r9 @ [10] @
               page_content r10 @ [10] @ page_content r11 @ [10] @
               page_content r12 @ [10] @ page_content r13 @ [10] @
               page_content r14 @ [10] @ page_content r15 @ [10] @
               page_content r16 @ [10] @ page_content r17 @ [10] @
               page_content r18 @ [10] @ page_content r19 @ [10] @ page_content r20)]"
  using assms(1,2,3,5)
  by (simp add: app_defs save_after_head [OF assms(4)] excerpts_append excerpts_rows
      head_events_def split: sum.splits)

text \<open>
  Claim C4 at a CSV of 21 rows, "a=1" to "a=21", with the question "When?".
\<close>

theorem csv_excerpt_first_20_rows_witness:
  "excerpts (trace (snd (app
       (demo_externals (Inr (map demo_page
         [''a=1'', ''a=2'', ''a=3'', ''a=4'', ''a=5'', ''a=6'', ''a=7'', ''a=8'', ''a=9'',
          ''a=10'', ''a=11'', ''a=12'', ''a=13'', ''a=14'', ''a=15'', ''a=16'', ''a=17'',
          ''a=18'', ''a=19'', ''a=20''] @ [demo_page ''a=21''])))
       (demo_inputs CSVDocument (ascii ''When?'') True) demo_world)))
     = [(ascii ''When?'',
         ascii ''a=1'' @ [10] @ ascii ''a=2'' @ [10] @ ascii ''a=3'' @ [10] @
         ascii ''a=4'' @ [10] @ ascii ''a=5'' @ [10] @ ascii ''a=6'' @ [10] @
         ascii ''a=7'' @ [10] @ ascii ''a=8'' @ [10] @ ascii ''a=9'' @ [10] @
         ascii ''a=10'' @ [10] @ ascii ''a=11'' @ [10] @ ascii ''a=12'' @ [10] @
         ascii ''a=13'' @ [10] @ ascii ''a=14'' @ [10] @ ascii ''a=15'' @ [10] @
         ascii ''a=16'' @ [10] @ ascii ''a=17'' @ [10] @ ascii ''a=18'' @ [10] @
         ascii ''a=19'' @ [10] @ ascii ''a=20'')]"
  using csv_excerpt_first_20_rows [of "demo_inputs CSVDocument (ascii ''When?'') True" demo_upload
      "demo_externals (Inr (map demo_page
         [''a=1'', ''a=2'', ''a=3'', ''a=4'', ''a=5'', ''a=6'', ''a=7'', ''a=8'', ''a=9'',
          ''a=10'', ''a=11'', ''a=12'', ''a=13'', ''a=14'', ''a=15'', ''a=16'', ''a=17'',
          ''a=18'', ''a=19'', ''a=20''] @ [demo_page ''a=21'']))" demo_world
      "tmp_path (ascii ''/tmp'') (ascii ''k3x9q_p2'') (ascii ''.csv'')"
      "snd (save_uploaded_file (demo_externals (Inr (map demo_page
         [''a=1'', ''a=2'', ''a=3'', ''a=4'', ''a=5'', ''a=6'', ''a=7'', ''a=8'', ''a=9'',
          ''a=10'', ''a=11'', ''a=12'', ''a=13'', ''a=14'', ''a=15'', ''a=16'', ''a=17'',
          ''a=18'', ''a=19'', ''a=20''] @ [demo_page ''a=21''])))
             demo_upload (ascii ''.csv'') demo_world)"
      "demo_page ''a=1''" "demo_page ''a=2''" "demo_page ''a=3''" "demo_page ''a=4''"
      "demo_page ''a=5''" "demo_page ''a=6''" "demo_page ''a=7''" "demo_page ''a=8''"
      "demo_page ''a=9''" "demo_page ''a=10''" "demo_page ''a=11''" "demo_page ''a=12''"
      "demo_page ''a=13''" "demo_page ''a=14''" "demo_page ''a=15''" "demo_page ''a=16''"
      "demo_page ''a=17''" "demo_page ''a=18''" "demo_page ''a=19''" "demo_page ''a=20''"
      "[demo_page ''a=21'']"]
  by (simp add: demo_defs)

section \<open>The chat model\<close>

text \<open>
  Claim C5, as stated, fails: with \<open>MODEL_NAME=gpt-4o\<close> in the environment and
  \<open>MODEL_PROVIDER=openai\<close> in the \<open>.env\<close> file, both visible in the environment after
  \<open>load_dotenv\<close>, the chat model is called as gemini-2.0-flash of google-genai.
\<close>

theorem configured_model_is_ignored:
  "environ (snd (app (demo_externals (Inr [demo_page ''Project X launched in 2024.'']))
       (demo_inputs TextDocument (ascii ''When?'') False) demo_world)) (ascii ''MODEL_NAME'')
     = Some (ascii ''gpt-4o'')
   \<and> environ (snd (app (demo_externals (Inr [demo_page ''Project X launched in 2024.'']))
       (demo_inputs TextDocument (ascii ''When?'') False) demo_world)) (ascii ''MODEL_PROVIDER'')
     = Some (ascii ''openai'')
   \<and> model_calls (trace (snd (app
       (demo_externals (Inr [demo_page ''Project X launched in 2024.'']))
       (demo_inputs TextDocument (ascii ''When?'') False) demo_world)))
     = [(ascii ''gemini-2.0-flash'', ascii ''google-genai'',
         format_prompt template (ascii ''When?'') (ascii ''Project X launched in 2024.''))]
   \<and> ascii ''gemini-2.0-flash'' \<noteq> ascii ''gpt-4o''
   \<and> ascii ''google-genai'' \<noteq> ascii ''openai''"
  by (simp add: app_defs demo_defs model_calls_append head_events_def llm_model_def)
     (simp add: ascii_def)

text \<open>
  Claim C5, amended. The model name and the provider are the constants of the script: in
  every run, whatever the environment and the \<open>.env\<close> file hold, every call of the chat
  model names gemini-2.0-flash and google-genai.
\<close>

theorem model_and_provider_are_constants:
  "\<exists>calls. model_calls (trace (snd (app ext inp w))) = model_calls (trace w) @ calls
     \<and> list_all (\<lambda>(m, p, prompt). m = ascii ''gemini-2.0-flash'' \<and> p = ascii ''google-genai'') calls"
  using calls_ok_app [of ext inp] unfolding calls_ok_def by blast

text \<open>
  Claim C5, amended, at the run of the text document with a question.
\<close>

theorem model_and_provider_are_constants_witness:
  "model_calls (trace (snd (app (demo_externals (Inr [demo_page ''Project X launched in 2024.'']))
       (demo_inputs TextDocument (ascii ''When?'') False) demo_world)))
     = [(ascii ''gemini-2.0-flash'', ascii ''google-genai'',
         format_prompt template (ascii ''When?'') (ascii ''Project X launched in 2024.''))]"
  using model_and_provider_are_constants [of "demo_externals (Inr [demo_page ''Project X launched in 2024.''])"
      "demo_inputs TextDocument (ascii ''When?'') False" demo_world]
  by (simp add: app_defs demo_defs model_calls_append head_events_def llm_model_def)

section \<open>Showing the content\<close>

text \<open>
  Claim C6. With an empty question the show-content path should show the whole extracted
  document, every segment of it, as "Show CSV Content" shows every row. "Show PDF Content"
  writes \<open>docs[0].page_content\<close>: for a PDF of the two pages "page one" and "page two" the
  run shows, under the heading "PDF Content", the first page alone, which is not the text
  of the two pages.
\<close>

theorem show_pdf_renders_first_page_only:
  "shown (trace (snd (app
       (demo_externals (Inr [demo_page ''page one'', demo_page ''page two'']))
       (demo_inputs PDFDocument [] True) demo_world)))
     = [Title ([128196] @ ascii '' Loader Document QA Chatbot''),
        Markdown (ascii ''Upload a document or provide a URL, ask your questions, and get structured answers using Google Gemini LLM!''),
        Info ([128213] @ ascii '' Upload a PDF file. Each page will be read as a separate document.''),
        Subheader ([128213] @ ascii '' PDF Content''),
        Write [WText (ascii ''page one'')]]
   \<and> ascii ''page one'' \<noteq> ascii ''page one'' @ ascii ''page two''
   \<and> ascii ''page one'' \<noteq> ascii ''page one'' @ [10] @ ascii ''page two''"
  by (simp add: app_defs demo_defs shown_append head_events_def ascii_def)

section \<open>The prompt composer\<close>

text \<open>
  Claim C7. The prompt composer is a function of the question and the excerpt alone: for
  every question and every excerpt the prompt is the fixed template text with the question
  and the excerpt inserted verbatim, so both occur in the prompt as contiguous substrings,
  the question before the excerpt.
\<close>

theorem prompt_embeds_question_and_text:
  "format_prompt template q t =
     ascii ''Answer the user question: '' @ q
     @ (ascii ''.'' @ [10, 10] @ ascii ''                Only find the answer in the uploaded text:'' @ [10])
     @ t
     @ (ascii ''.'' @ [10] @ ascii ''                Format the answer in a structured way.'' @ [10]
        @ ascii ''                If the content contains a table, display it properly.'')
   \<and> sublist q (format_prompt template q t)
   \<and> sublist t (format_prompt template q t)"
proof -
  let ?a = "ascii ''Answer the user question: ''"
  let ?b = "ascii ''.'' @ [10, 10] @ ascii ''                Only find the answer in the uploaded text:'' @ [10]"
  let ?c = "ascii ''.'' @ [10] @ ascii ''                Format the answer in a structured way.'' @ [10]
        @ ascii ''                If the content contains a table, display it properly.''"
  have eq: "format_prompt template q t = ?a @ q @ ?b @ t @ ?c"
    unfolding format_prompt_def template_def by simp
  have "sublist q (?a @ q @ (?b @ t @ ?c))"
    unfolding sublist_def by blast
  moreover have "sublist t ((?a @ q @ ?b) @ t @ ?c)"
    unfolding sublist_def by blast
  ultimately show ?thesis using eq by simp
qed

section \<open>Three rows of a CSV\<close>

text \<open>
  Claim C8. For a CSV extracted into exactly three rows, with no question and "Show CSV
  Content" clicked, the run ends normally and shows, after the head of the page and the hint
  of the branch, exactly three row blocks in row order, each the heading "Row n", the
  content of the row and its metadata; the prompt template and the chat model are not
  invoked.
\<close>

theorem show_csv_three_rows:
  assumes "document_type inp = CSVDocument" and "csv_file inp = Some file"
    and "user_question inp = []" and "show_csv_button inp"
    and "save_uploaded_file ext file (ascii ''.csv'') w = (Inr temp_path, w')"
    and "CSVLoader ext (fs w') temp_path = Inr [d1, d2, d3]"
  shows "fst (app ext inp w) = Inr ()
       \<and> trace (snd (app ext inp w)) = trace (snd (page_head ext w)) @
           [Show (Info ([128202] @ ascii '' Upload a CSV file. Each row will be read as a document.'')),
            Show (Subheader (ascii ''Row 1'')),
            Show (Write [WText (page_content d1)]),
            Show (Write [WText (ascii ''Metadata:''), WDict (metadata d1)]),
            Show (Subheader (ascii ''Row 2'')),
            Show (Write [WText (page_content d2)]),
            Show (Write [WText (ascii ''Metadata:''), WDict (metadata d2)]),
            Show (Subheader (ascii ''Row 3'')),
            Show (Write [WText (page_content d3)]),
            Show (Write [WText (ascii ''Metadata:''), WDict (metadata d3)])]
       \<and> model_calls (trace (snd (app ext inp w))) = model_calls (trace w)
       \<and> excerpts (trace (snd (app ext inp w))) = excerpts (trace w)"
proof -
  have rows: "ascii ''Row '' @ str_nat 1 = ascii ''Row 1''"
    "ascii ''Row '' @ str_nat 2 = ascii ''Row 2''"
    "ascii ''Row '' @ str_nat 3 = ascii ''Row 3''"
    by (simp_all add: ascii_def str_nat.simps digit_def)
  have run: "app ext inp w = (Inr (), w'\<lparr>environ := map_of (rev (dotenv_file ext)) ++ environ w,
      trace := trace w @ head_events @
           [Show (Info ([128202] @ ascii '' Upload a CSV file. Each row will be read as a document.'')),
            Show (Subheader (ascii ''Row 1'')),
            Show (Write [WText (page_content d1)]),
            Show (Write [WText (ascii ''Metadata:''), WDict (metadata d1)]),
            Show (Subheader (ascii ''Row 2'')),
            Show (Write [WText (page_content d2)]),
            Show (Write [WText (ascii ''Metadata:''), WDict (metadata d2)]),
            Show (Subheader (ascii ''Row 3'')),
            Show (Write [WText (page_content d3)]),
            Show (Write [WText (ascii ''Metadata:''), WDict (metadata d3)])]\<rparr>)"
    using assms(1,2,3,4,6)
    by (simp add: app_defs save_after_head [OF assms(5)] enumerate_simps row_block_def rows
        del: One_nat_def)
  show ?thesis
    by (simp add: run page_head_run model_calls_append excerpts_append head_events_def)
qed

text \<open>
  Claim C8 at a CSV with the rows "a: 1", "a: 2", "a: 3".
\<close>

theorem show_csv_three_rows_witness:
  "shown (trace (snd (app
       (demo_externals (Inr [demo_page ''a: 1'', demo_page ''a: 2'', demo_page ''a: 3'']))
       (demo_inputs CSVDocument [] True) demo_world)))
     = [Title ([128196] @ ascii '' Loader Document QA Chatbot''),
        Markdown (ascii ''Upload a document or provide a URL, ask your questions, and get structured answers using Google Gemini LLM!''),
        Info ([128202] @ ascii '' Upload a CSV file. Each row will be read as a document.''),
        Subheader (ascii ''Row 1''), Write [WText (ascii ''a: 1'')], Write [WText (ascii ''Metadata:''), WDict []],
        Subheader (ascii ''Row 2''), Write [WText (ascii ''a: 2'')], Write [WText (ascii ''Metadata:''), WDict []],
        Subheader (ascii ''Row 3''), Write [WText (ascii ''a: 3'')], Write [WText (ascii ''Metadata:''), WDict []]]
   \<and> model_calls (trace (snd (app
       (demo_externals (Inr [demo_page ''a: 1'', demo_page ''a: 2'', demo_page ''a: 3'']))
       (demo_inputs CSVDocument [] True) demo_world))) = []"
  using show_csv_three_rows [of "demo_inputs CSVDocument [] True" demo_upload
      "demo_externals (Inr [demo_page ''a: 1'', demo_page ''a: 2'', demo_page ''a: 3''])" demo_world
      "tmp_path (ascii ''/tmp'') (ascii ''k3x9q_p2'') (ascii ''.csv'')"
      "snd (save_uploaded_file (demo_externals (Inr [demo_page ''a: 1'', demo_page ''a: 2'', demo_page ''a: 3'']))
             demo_upload (ascii ''.csv'') demo_world)"
      "demo_page ''a: 1''" "demo_page ''a: 2''" "demo_page ''a: 3''"]
  by (simp add: demo_defs page_head_run head_events_def)

section \<open>The unguarded index of the web branch\<close>

text \<open>
  Claim C9. In the web branch with a URL and a question, \<open>docs[0]\<close> is evaluated without a
  test of \<open>docs\<close>: the run ends with IndexError exactly when the loader returned no
  segment, and then before the prompt template or the chat model is invoked.
\<close>

theorem webbase_question_indexes_unguarded:
  assumes "document_type inp = WebBaseDocument" and "url inp \<noteq> []"
    and "user_question inp \<noteq> []"
    and "WebBaseLoader ext (url inp) = Inr docs"
  shows "(fst (app ext inp w) = Inl IndexError \<longleftrightarrow> docs = [])
       \<and> (docs = [] \<longrightarrow> model_calls (trace (snd (app ext inp w))) = model_calls (trace w)
                      \<and> excerpts (trace (snd (app ext inp w))) = excerpts (trace w))"
  using assms
  by (cases docs)
     (simp_all add: app_defs model_calls_append excerpts_append head_events_def
        split: sum.splits)

text \<open>
  Claim C9 at no segment and at one segment.
\<close>

theorem webbase_question_indexes_unguarded_witness:
  "fst (app (demo_externals (Inr [])) (demo_inputs WebBaseDocument (ascii ''When?'') False) demo_world)
     = Inl IndexError
   \<and> fst (app (demo_externals (Inr [demo_page ''Project X'']))
            (demo_inputs WebBaseDocument (ascii ''When?'') False) demo_world) = Inr ()"
  using webbase_question_indexes_unguarded [of "demo_inputs WebBaseDocument (ascii ''When?'') False"
      "demo_externals (Inr [])" "[]" demo_world]
    webbase_question_indexes_unguarded [of "demo_inputs WebBaseDocument (ascii ''When?'') False"
      "demo_externals (Inr [demo_page ''Project X''])" "[demo_page ''Project X'']" demo_world]
  by (simp add: demo_defs app_defs)

section \<open>Saving the upload\<close>

text \<open>
  Claim C10. When one of the \<open>TMP_MAX\<close> names tried is unused, \<open>save_uploaded_file\<close>
  returns the path of a file that did not exist before and whose name ends with the given
  suffix; the file holds what \<open>read\<close> returned, which for an upload read from its start is
  its complete content, byte for byte; it still exists when the function has returned, and
  no other file has changed. When every one of the names tried exists, the function raises
  FileExistsError and leaves the files as they were.
\<close>

theorem save_uploaded_file_writes_upload:
  "((\<exists>i<TMP_MAX ext. fs w (tmp_path (tempdir ext) (names w i) suf) = None) \<longrightarrow>
      (\<exists>path w'. save_uploaded_file ext f suf w = (Inr path, w')
         \<and> fs w path = None
         \<and> suffix suf path
         \<and> fs w' path = Some (read f)
         \<and> (pos f = 0 \<longrightarrow> fs w' path = Some (content f))
         \<and> (\<forall>p. p \<noteq> path \<longrightarrow> fs w' p = fs w p)
         \<and> trace w' = trace w))
   \<and> (\<not> (\<exists>i<TMP_MAX ext. fs w (tmp_path (tempdir ext) (names w i) suf) = None) \<longrightarrow>
      (\<exists>w'. save_uploaded_file ext f suf w = (Inl FileExistsError, w')
         \<and> fs w' = fs w \<and> trace w' = trace w))"
proof -
  obtain r rest where found: "mkstemp_inner (TMP_MAX ext) (tempdir ext) suf (fs w) (names w) = (r, rest)"
    by (cases "mkstemp_inner (TMP_MAX ext) (tempdir ext) suf (fs w) (names w)")
  have none_iff: "r = None \<longleftrightarrow> (\<forall>i<TMP_MAX ext. fs w (tmp_path (tempdir ext) (names w i) suf) \<noteq> None)"
    using mkstemp_inner_None [of "TMP_MAX ext" "tempdir ext" suf "fs w" "names w"] found by simp
  show ?thesis
  proof (cases r)
    case None
    have "save_uploaded_file ext f suf w = (Inl FileExistsError, w\<lparr>names := rest\<rparr>)"
      using found None by (simp add: save_uploaded_file_run)
    then show ?thesis using none_iff None by simp
  next
    case (Some path)
    have fresh: "fs w path = None" and name: "\<exists>n. path = tmp_path (tempdir ext) n suf"
      using mkstemp_inner_Some [of "TMP_MAX ext" "tempdir ext" suf "fs w" "names w" path] found Some
      by simp_all
    have ends: "suffix suf path"
      using name suffix_tmp_path by blast
    have usable: "\<exists>i<TMP_MAX ext. fs w (tmp_path (tempdir ext) (names w i) suf) = None"
      using none_iff Some by auto
    have run: "save_uploaded_file ext f suf w
                 = (Inr path, w\<lparr>fs := (fs w)(path \<mapsto> read f), names := rest\<rparr>)"
      using found Some by (simp add: save_uploaded_file_run)
    show ?thesis
      using fresh ends usable by (simp add: run read_def)
  qed
qed

text \<open>
  Claim C10 at the four-byte upload and the suffix ".txt", in the empty directory "/tmp".
\<close>

theorem save_uploaded_file_writes_upload_witness:
  "fst (save_uploaded_file (demo_externals (Inr [])) demo_upload (ascii ''.txt'') demo_world)
     = Inr (ascii ''/tmp/tmpk3x9q_p2.txt'')
   \<and> fs (snd (save_uploaded_file (demo_externals (Inr [])) demo_upload (ascii ''.txt'') demo_world))
        (ascii ''/tmp/tmpk3x9q_p2.txt'') = Some [80, 114, 111, 106]"
  using save_uploaded_file_writes_upload [of "demo_externals (Inr [])" demo_world "ascii ''.txt''" demo_upload]
  by (simp add: demo_defs tmp_path_def path_join_def ascii_def)

end
